theory Spec2Isabelle
  imports Complex_Main
begin

section \<open>Data model\<close>

text \<open>
  The backtest engine of \<^verbatim>\<open>engine.py\<close> and the walk-forward optimizer of
  \<^verbatim>\<open>forward_test.py\<close>, embedded as functions on explicit state. Python floats are
  idealised as reals, so the embedding covers runs whose prices and indicators are finite
  numbers; integers are \<open>int\<close>; every exception the code can raise is a value of type
  \<open>error\<close>, and a function that can raise returns \<open>error + 'a\<close>.
\<close>

datatype error =
  IndexError | KeyError | TypeError | ValueError | OverflowError | AttributeError
  | ZeroDivisionError

text \<open>\<^verbatim>\<open>symbol_specs\<close> of \<^verbatim>\<open>strategy.py\<close>, a dict keyed by the symbol.\<close>

record symbol_spec =
  tick_size :: real
  point_value :: int
  spec_name :: string

definition symbol_specs :: "string \<rightharpoonup> symbol_spec" where
  "symbol_specs =
     [''NQ'' \<mapsto> \<lparr>tick_size = 0.25, point_value = 20, spec_name = ''E-mini Nasdaq-100''\<rparr>,
      ''ES'' \<mapsto> \<lparr>tick_size = 0.25, point_value = 50, spec_name = ''E-mini S&P 500''\<rparr>,
      ''EURUSD'' \<mapsto> \<lparr>tick_size = 0.00001, point_value = 10, spec_name = ''EURUSD''\<rparr>]"

text \<open>
  A row of the bar table: \<open>name\<close> is the index label (the timestamp), the other fields
  are the columns the data pipeline provides.
\<close>

record 't bar =
  name :: 't
  close :: real
  high :: real
  low :: real
  "open" :: real
  volume :: real
  atr_14 :: real
  atr_avg :: real
  ema_9 :: real
  ema_21 :: real
  sma_20 :: real
  sma_50 :: real
  rsi :: real
  momentum_10 :: real

text \<open>The dict stored in \<^verbatim>\<open>current_position\<close> by \<^verbatim>\<open>_enter_trade\<close>.\<close>

record 't position =
  entry_time :: 't
  entry_price :: real
  position_size :: int
  stop_loss :: real
  take_profit :: real
  entry_equity :: real

text \<open>
  The dict appended to \<^verbatim>\<open>trades\<close> by \<^verbatim>\<open>_exit_trade\<close>. \<open>pnl_pct\<close> is
  \<open>None\<close> where the entry equity is zero and the float division yields a non-finite value.
\<close>

record 't trade =
  trade_entry_time :: 't
  exit_time :: 't
  trade_entry_price :: real
  exit_price :: real
  trade_position_size :: int
  pnl :: real
  pnl_pct :: "real option"
  exit_reason :: "string option"
  equity_after :: real

text \<open>An entry of \<^verbatim>\<open>equity_curve\<close>; \<open>position_flag\<close> is the key \<^verbatim>\<open>'position'\<close>.\<close>

record 't equity_point =
  timestamp :: 't
  equity :: real
  position_flag :: int

text \<open>
  The strategy is a pluggable object. Its class is a record of its three methods and of
  the attribute accesses the engines make; the object's own mutable data is a value of
  type \<open>'s\<close> that every method receives and, where it may change it, returns. A
  method may fail. As in the three strategy modules of the repository, a method changes
  neither the bar table nor the position it is given.
\<close>

record ('t, 's) strategy_class =
  symbol :: "'s \<Rightarrow> string"
  atr_stop_multiplier :: "'s \<Rightarrow> real"
  reward_risk_ratio :: "'s \<Rightarrow> real"
  should_enter :: "'s \<Rightarrow> 't bar list \<Rightarrow> int \<Rightarrow> error + bool \<times> 's"
  should_exit ::
    "'s \<Rightarrow> 't bar list \<Rightarrow> int \<Rightarrow> 't position \<Rightarrow> error + (bool \<times> string option) \<times> 's"
  calculate_position_size :: "'s \<Rightarrow> 't bar list \<Rightarrow> int \<Rightarrow> real \<Rightarrow> error + int \<times> 's"
  hasattr :: "'s \<Rightarrow> string \<Rightarrow> bool"
  setattr :: "'s \<Rightarrow> string \<Rightarrow> real \<Rightarrow> 's"

text \<open>The attributes of an \<^verbatim>\<open>Engine\<close> object.\<close>

record ('t, 's) engine =
  strategy :: 's
  initial_capital :: real
  account_value :: real
  trades :: "'t trade list"
  equity_curve :: "'t equity_point list"
  current_position :: "'t position option"

section \<open>The backtest engine\<close>

text \<open>\<^verbatim>\<open>data.iloc[idx]\<close>: a negative index counts from the end, out of range raises.\<close>

definition iloc :: "'a list \<Rightarrow> int \<Rightarrow> error + 'a" where
  "iloc data idx =
     (let n = int (length data); j = (if idx < 0 then n + idx else idx)
      in if 0 \<le> j \<and> j < n then Inr (data ! nat j) else Inl IndexError)"

text \<open>\<^verbatim>\<open>Engine.__init__\<close>.\<close>

definition Engine_init :: "'s \<Rightarrow> real \<Rightarrow> ('t, 's) engine" where
  "Engine_init strat capital =
     \<lparr>strategy = strat, initial_capital = capital, account_value = capital,
      trades = [], equity_curve = [], current_position = None\<rparr>"

text \<open>\<^verbatim>\<open>Engine._enter_trade\<close>.\<close>

definition enter_trade ::
  "('t, 's) strategy_class \<Rightarrow> ('t, 's, 'z) engine_scheme \<Rightarrow> 't bar list \<Rightarrow> int
    \<Rightarrow> error + ('t, 's, 'z) engine_scheme" where
  "enter_trade cls self data idx =
     (case iloc data idx of
        Inl e \<Rightarrow> Inl e
      | Inr bar \<Rightarrow>
          (case calculate_position_size cls (strategy self) data idx (account_value self) of
             Inl e \<Rightarrow> Inl e
           | Inr (contracts, strat) \<Rightarrow>
               (let price = close bar;
                    stop_distance = atr_14 bar * atr_stop_multiplier cls strat;
                    stop = price - stop_distance;
                    target = price + stop_distance * reward_risk_ratio cls strat
                in Inr (self\<lparr>strategy := strat,
                     current_position := Some
                       \<lparr>entry_time = name bar, entry_price = price, position_size = contracts,
                        stop_loss = stop, take_profit = target,
                        entry_equity = account_value self\<rparr>\<rparr>))))"

text \<open>
  \<^verbatim>\<open>Engine._exit_trade\<close>. With no open position the subscript \<^verbatim>\<open>pos[...]\<close> raises
  TypeError, at the place where the source first reads \<^verbatim>\<open>pos\<close>.
\<close>

definition exit_trade ::
  "('t, 's) strategy_class \<Rightarrow> ('t, 's, 'z) engine_scheme \<Rightarrow> 't bar list \<Rightarrow> int
    \<Rightarrow> string option \<Rightarrow> error + ('t, 's, 'z) engine_scheme" where
  "exit_trade cls self data idx reason =
     (case iloc data idx of
        Inl e \<Rightarrow> Inl e
      | Inr bar \<Rightarrow>
          (case current_position self of
             None \<Rightarrow>
               (if reason = Some ''stop_loss'' \<or> reason = Some ''take_profit'' then Inl TypeError
                else (case symbol_specs (symbol cls (strategy self)) of
                        None \<Rightarrow> Inl KeyError
                      | Some spec \<Rightarrow> Inl TypeError))
           | Some pos \<Rightarrow>
               (let price =
                      (if reason = Some ''stop_loss'' then stop_loss pos
                       else if reason = Some ''take_profit'' then take_profit pos
                       else close bar)
                in case symbol_specs (symbol cls (strategy self)) of
                     None \<Rightarrow> Inl KeyError
                   | Some spec \<Rightarrow>
                       (let price_change = price - entry_price pos;
                            profit = price_change * of_int (position_size pos)
                                       * of_int (point_value spec);
                            profit_pct =
                              (if entry_equity pos = 0 then None
                               else Some (profit / entry_equity pos * 100));
                            account = account_value self + profit
                        in Inr (self\<lparr>account_value := account,
                             trades := trades self @
                               [\<lparr>trade_entry_time = entry_time pos, exit_time = name bar,
                                 trade_entry_price = entry_price pos, exit_price = price,
                                 trade_position_size = position_size pos, pnl = profit,
                                 pnl_pct = profit_pct, exit_reason = reason,
                                 equity_after = account\<rparr>],
                             current_position := None\<rparr>)))))"

text \<open>
  The body of the bar loop of \<^verbatim>\<open>Engine.run_backtest\<close> for one index: record the
  equity point, then consult the exit rule if a position is open, else the entry rule.
\<close>

definition run_backtest_bar ::
  "('t, 's) strategy_class \<Rightarrow> 't bar list \<Rightarrow> ('t, 's, 'z) engine_scheme \<Rightarrow> int
    \<Rightarrow> error + ('t, 's, 'z) engine_scheme" where
  "run_backtest_bar cls data self idx =
     (case iloc data idx of
        Inl e \<Rightarrow> Inl e
      | Inr bar \<Rightarrow>
          (let self1 = self\<lparr>equity_curve := equity_curve self @
                 [\<lparr>timestamp = name bar, equity = account_value self,
                   position_flag = (if current_position self \<noteq> None then 1 else 0)\<rparr>]\<rparr>
           in case current_position self1 of
                Some pos \<Rightarrow>
                  (case should_exit cls (strategy self1) data idx pos of
                     Inl e \<Rightarrow> Inl e
                   | Inr ((leave, reason), strat) \<Rightarrow>
                       (if leave then exit_trade cls (self1\<lparr>strategy := strat\<rparr>) data idx reason
                        else Inr (self1\<lparr>strategy := strat\<rparr>)))
              | None \<Rightarrow>
                  (case should_enter cls (strategy self1) data idx of
                     Inl e \<Rightarrow> Inl e
                   | Inr (go, strat) \<Rightarrow>
                       (if go then enter_trade cls (self1\<lparr>strategy := strat\<rparr>) data idx
                        else Inr (self1\<lparr>strategy := strat\<rparr>)))))"

text \<open>The \<^verbatim>\<open>for idx in range(len(data))\<close> loop, over the list of indices still to visit.\<close>

fun run_backtest_loop ::
  "('t, 's) strategy_class \<Rightarrow> 't bar list \<Rightarrow> nat list \<Rightarrow> ('t, 's, 'z) engine_scheme
    \<Rightarrow> error + ('t, 's, 'z) engine_scheme" where
  "run_backtest_loop cls data [] self = Inr self"
| "run_backtest_loop cls data (idx # idxs) self =
     (case run_backtest_bar cls data self (int idx) of
        Inl e \<Rightarrow> Inl e
      | Inr self' \<Rightarrow> run_backtest_loop cls data idxs self')"

text \<open>
  \<^verbatim>\<open>Engine.run_backtest\<close> on the bar table \<open>data\<close> that the data pipeline has loaded:
  the bar loop, then the closing of a position that is still open. Printing and saving
  the results change nothing in the engine.
\<close>

definition run_backtest ::
  "('t, 's) strategy_class \<Rightarrow> 't bar list \<Rightarrow> ('t, 's, 'z) engine_scheme
    \<Rightarrow> error + ('t, 's, 'z) engine_scheme" where
  "run_backtest cls data self =
     (case run_backtest_loop cls data [0..<length data] self of
        Inl e \<Rightarrow> Inl e
      | Inr self' \<Rightarrow>
          (case current_position self' of
             Some pos \<Rightarrow> exit_trade cls self' data (int (length data) - 1) (Some ''end_of_data'')
           | None \<Rightarrow> Inr self'))"

section \<open>Position sizing of the strategies\<close>

text \<open>
  \<^verbatim>\<open>Strategy.calculate_position_size\<close>, the same in \<^verbatim>\<open>strategy.py\<close>,
  \<^verbatim>\<open>strategy_sma.py\<close> and \<^verbatim>\<open>strategy_mrp.py\<close>; the attributes it reads are its
  first three arguments. \<^verbatim>\<open>int\<close> truncates towards zero. A zero divisor gives a
  non-finite float quotient, which \<^verbatim>\<open>int\<close> refuses: OverflowError for an infinity,
  ValueError for a NaN.
\<close>

definition Strategy_calculate_position_size ::
  "string \<Rightarrow> real \<Rightarrow> real \<Rightarrow> 't bar list \<Rightarrow> int \<Rightarrow> real \<Rightarrow> error + int" where
  "Strategy_calculate_position_size symb risk mult data idx account =
     (case iloc data idx of
        Inl e \<Rightarrow> Inl e
      | Inr current \<Rightarrow>
          (let stop_distance = atr_14 current * mult;
               risk_amount = account * risk
           in case symbol_specs symb of
                None \<Rightarrow> Inl KeyError
              | Some spec \<Rightarrow>
                  (let divisor = stop_distance * of_int (point_value spec)
                   in if divisor = 0
                      then (if risk_amount = 0 then Inl ValueError else Inl OverflowError)
                      else (let q = risk_amount / divisor;
                                contracts = (if 0 \<le> q then \<lfloor>q\<rfloor> else \<lceil>q\<rceil>)
                            in Inr (max 1 contracts)))))"

section \<open>The walk-forward optimizer\<close>

text \<open>The dict returned by \<^verbatim>\<open>_run_single_backtest\<close>.\<close>

record 't results =
  total_trades :: nat
  win_rate :: real
  total_pnl :: real
  profit_factor :: real
  final_capital :: real
  result_trades :: "'t trade list"

text \<open>An entry of \<^verbatim>\<open>all_windows\<close>.\<close>

record 't window =
  window :: nat
  is_start :: 't
  is_end :: 't
  oos_start :: 't
  oos_end :: 't
  best_params :: "(string \<times> real) list"
  is_score :: "real option"
  oos_results :: "'t results"

text \<open>
  The attributes of a \<^verbatim>\<open>ForwardTestEngine\<close> object: those it shares with the engine
  it derives from, and its own.
\<close>

record ('t, 's) forward_test_engine = "('t, 's) engine" +
  in_sample_bars :: nat
  out_sample_bars :: nat
  step_size :: nat
  all_windows :: "'t window list"
  combined_trades :: "'t trade list"
  oos_trades :: "'t trade list"

text \<open>\<^verbatim>\<open>ForwardTestEngine.__init__\<close>.\<close>

definition ForwardTestEngine_init :: "'s \<Rightarrow> real \<Rightarrow> ('t, 's) forward_test_engine" where
  "ForwardTestEngine_init strat capital =
     \<lparr>strategy = strat, initial_capital = capital, account_value = capital,
      trades = [], equity_curve = [], current_position = None,
      in_sample_bars = 10000, out_sample_bars = 5000, step_size = 2500,
      all_windows = [], combined_trades = [], oos_trades = []\<rparr>"

text \<open>
  Modelled from the spec: the base class \<^verbatim>\<open>BacktestEngine\<close> (module
  \<^verbatim>\<open>backtest\<close>) is not among the sources, so the \<^verbatim>\<open>_enter_trade\<close> and
  \<^verbatim>\<open>_exit_trade\<close> that \<^verbatim>\<open>ForwardTestEngine\<close> inherits are missing. Section 4.1 of the
  specification describes one trade lifecycle for every engine run, which is what
  \<^verbatim>\<open>Engine._enter_trade\<close> and \<^verbatim>\<open>Engine._exit_trade\<close> implement; they are taken
  for the inherited methods, and \<^verbatim>\<open>_exit_trade\<close> returns the Trade record it emits,
  as the call \<^verbatim>\<open>trades.append(self._exit_trade(...))\<close> needs.
\<close>

definition BacktestEngine_enter_trade ::
  "('t, 's) strategy_class \<Rightarrow> ('t, 's, 'z) engine_scheme \<Rightarrow> 't bar list \<Rightarrow> int
    \<Rightarrow> error + ('t, 's, 'z) engine_scheme" where
  "BacktestEngine_enter_trade = enter_trade"

definition BacktestEngine_exit_trade ::
  "('t, 's) strategy_class \<Rightarrow> ('t, 's, 'z) engine_scheme \<Rightarrow> 't bar list \<Rightarrow> int
    \<Rightarrow> string option \<Rightarrow> error + 't trade \<times> ('t, 's, 'z) engine_scheme" where
  "BacktestEngine_exit_trade cls self data idx reason =
     (case exit_trade cls self data idx reason of
        Inl e \<Rightarrow> Inl e
      | Inr self' \<Rightarrow> Inr (last (trades self'), self'))"

text \<open>
  The parameter loop at the head of \<^verbatim>\<open>_run_single_backtest\<close>, on the strategy
  object; \<open>params\<close> is the dict as the list of its items.
\<close>

fun set_params :: "('t, 's) strategy_class \<Rightarrow> 's \<Rightarrow> (string \<times> real) list \<Rightarrow> 's" where
  "set_params cls strat [] = strat"
| "set_params cls strat ((param, v) # params) =
     set_params cls (if hasattr cls strat param then setattr cls strat param v else strat) params"

text \<open>
  The body of the bar loop of \<^verbatim>\<open>_run_single_backtest\<close> for one index, on the local
  list \<open>acc\<close> of the trades of this run and the engine object.
\<close>

definition run_single_backtest_bar ::
  "('t, 's) strategy_class \<Rightarrow> 't bar list \<Rightarrow> 't trade list \<times> ('t, 's, 'z) engine_scheme \<Rightarrow> int
    \<Rightarrow> error + 't trade list \<times> ('t, 's, 'z) engine_scheme" where
  "run_single_backtest_bar cls data st idx =
     (case st of (acc, self) \<Rightarrow>
        (case iloc data idx of
           Inl e \<Rightarrow> Inl e
         | Inr bar \<Rightarrow>
             (case current_position self of
                Some pos \<Rightarrow>
                  (case should_exit cls (strategy self) data idx pos of
                     Inl e \<Rightarrow> Inl e
                   | Inr ((leave, reason), strat) \<Rightarrow>
                       (if leave
                        then (case BacktestEngine_exit_trade cls (self\<lparr>strategy := strat\<rparr>)
                                     data idx reason of
                                Inl e \<Rightarrow> Inl e
                              | Inr (t, self') \<Rightarrow> Inr (acc @ [t], self'))
                        else Inr (acc, self\<lparr>strategy := strat\<rparr>)))
              | None \<Rightarrow>
                  (case should_enter cls (strategy self) data idx of
                     Inl e \<Rightarrow> Inl e
                   | Inr (go, strat) \<Rightarrow>
                       (if go
                        then (case BacktestEngine_enter_trade cls (self\<lparr>strategy := strat\<rparr>)
                                     data idx of
                                Inl e \<Rightarrow> Inl e
                              | Inr self' \<Rightarrow> Inr (acc, self'))
                        else Inr (acc, self\<lparr>strategy := strat\<rparr>))))))"

fun run_single_backtest_loop ::
  "('t, 's) strategy_class \<Rightarrow> 't bar list \<Rightarrow> nat list
    \<Rightarrow> 't trade list \<times> ('t, 's, 'z) engine_scheme
    \<Rightarrow> error + 't trade list \<times> ('t, 's, 'z) engine_scheme" where
  "run_single_backtest_loop cls data [] st = Inr st"
| "run_single_backtest_loop cls data (idx # idxs) st =
     (case run_single_backtest_bar cls data st (int idx) of
        Inl e \<Rightarrow> Inl e
      | Inr st' \<Rightarrow> run_single_backtest_loop cls data idxs st')"

text \<open>
  Division as the metrics use it, and the mean of a column. A zero divisor is an error
  here, also where the float division of the source would give a non-finite value
  without raising (the mean of an empty column is NaN), so that a result of the metrics
  shows that no division by zero took place.
\<close>

definition truediv :: "real \<Rightarrow> real \<Rightarrow> error + real" where
  "truediv a b = (if b = 0 then Inl ZeroDivisionError else Inr (a / b))"

definition mean :: "real list \<Rightarrow> error + real" where
  "mean xs = truediv (sum_list xs) (real (length xs))"

text \<open>
  The metrics block of \<^verbatim>\<open>_run_single_backtest\<close>: total PnL, win rate and profit
  factor of the trades of the run, in this order.
\<close>

definition calculate_metrics :: "'t trade list \<Rightarrow> error + real \<times> real \<times> real" where
  "calculate_metrics ts =
     (if ts \<noteq> [] then
        (let winners = filter (\<lambda>p. p > 0) (map pnl ts);
             losers = filter (\<lambda>p. p \<le> 0) (map pnl ts);
             pnl_sum = sum_list (map pnl ts)
         in case (if length ts > 0
                  then (case truediv (real (length winners)) (real (length ts)) of
                          Inl e \<Rightarrow> Inl e | Inr r \<Rightarrow> Inr (r * 100))
                  else Inr 0) of
              Inl e \<Rightarrow> Inl e
            | Inr rate \<Rightarrow>
                (case (if length winners > 0 then mean winners else Inr 0) of
                   Inl e \<Rightarrow> Inl e
                 | Inr avg_win \<Rightarrow>
                     (case (if length losers > 0 then mean losers else Inr 0) of
                        Inl e \<Rightarrow> Inl e
                      | Inr avg_loss \<Rightarrow>
                          (if avg_loss \<noteq> 0 \<and> length losers > 0
                           then (case truediv (avg_win * real (length winners))
                                        (avg_loss * real (length losers)) of
                                   Inl e \<Rightarrow> Inl e
                                 | Inr pf \<Rightarrow> Inr (pnl_sum, rate, \<bar>pf\<bar>))
                           else Inr (pnl_sum, rate, 0)))))
      else Inr (0, 0, 0))"

text \<open>\<^verbatim>\<open>ForwardTestEngine._run_single_backtest\<close>.\<close>

definition run_single_backtest ::
  "('t, 's) strategy_class \<Rightarrow> 't bar list \<Rightarrow> (string \<times> real) list
    \<Rightarrow> ('t, 's, 'z) engine_scheme \<Rightarrow> error + 't results \<times> ('t, 's, 'z) engine_scheme" where
  "run_single_backtest cls data params self =
     (case run_single_backtest_loop cls data [0..<length data]
             ([], self\<lparr>strategy := set_params cls (strategy self) params\<rparr>) of
        Inl e \<Rightarrow> Inl e
      | Inr (ts, self') \<Rightarrow>
          (case calculate_metrics ts of
             Inl e \<Rightarrow> Inl e
           | Inr (pnl_sum, rate, pf) \<Rightarrow>
               Inr (\<lparr>total_trades = length ts, win_rate = rate, total_pnl = pnl_sum,
                     profit_factor = pf, final_capital = account_value self',
                     result_trades = ts\<rparr>, self')))"

text \<open>\<^verbatim>\<open>ForwardTestEngine._calculate_fitness_score\<close>.\<close>

definition calculate_fitness_score :: "'t results \<Rightarrow> real" where
  "calculate_fitness_score r =
     total_pnl r * 0.4 + profit_factor r * 1000 * 0.3 + win_rate r * 10 * 0.2
       + real (total_trades r) * 0.1"

text \<open>
  \<^verbatim>\<open>ForwardTestEngine._generate_param_combinations\<close>; the grid is the dict as the
  list of its items, and \<open>product_lists\<close> enumerates as \<^verbatim>\<open>itertools.product\<close> does.
\<close>

definition generate_param_combinations ::
  "(string \<times> real list) list \<Rightarrow> (string \<times> real) list list" where
  "generate_param_combinations param_grid =
     map (zip (map fst param_grid)) (product_lists (map snd param_grid))"

text \<open>
  The scan of \<^verbatim>\<open>_optimize_parameters\<close> over the combinations still to try. The best
  score starts at minus infinity, here \<open>None\<close>, which every score exceeds.
\<close>

fun optimize_loop ::
  "('t, 's) strategy_class \<Rightarrow> 't bar list \<Rightarrow> (string \<times> real) list list
    \<Rightarrow> (string \<times> real) list option \<times> real option \<Rightarrow> ('t, 's, 'z) engine_scheme
    \<Rightarrow> error + ((string \<times> real) list option \<times> real option) \<times> ('t, 's, 'z) engine_scheme" where
  "optimize_loop cls data [] best self = Inr (best, self)"
| "optimize_loop cls data (params # rest) best self =
     (case run_single_backtest cls data params self of
        Inl e \<Rightarrow> Inl e
      | Inr (r, self') \<Rightarrow>
          (let score = calculate_fitness_score r
           in if (case snd best of None \<Rightarrow> True | Some b \<Rightarrow> score > b)
              then optimize_loop cls data rest (Some params, Some score) self'
              else optimize_loop cls data rest best self'))"

text \<open>\<^verbatim>\<open>ForwardTestEngine._optimize_parameters\<close>.\<close>

definition optimize_parameters ::
  "('t, 's) strategy_class \<Rightarrow> 't bar list \<Rightarrow> (string \<times> real list) list
    \<Rightarrow> ('t, 's, 'z) engine_scheme
    \<Rightarrow> error + ((string \<times> real) list option \<times> real option) \<times> ('t, 's, 'z) engine_scheme" where
  "optimize_parameters cls data param_grid self =
     optimize_loop cls data (generate_param_combinations param_grid) (None, None) self"

text \<open>\<^verbatim>\<open>data.index[i]\<close> and the slice \<^verbatim>\<open>data.iloc[a:b]\<close> for \<open>a \<le> b\<close>.\<close>

definition index_at :: "'t bar list \<Rightarrow> int \<Rightarrow> error + 't" where
  "index_at data i = (case iloc data i of Inl e \<Rightarrow> Inl e | Inr b \<Rightarrow> Inr (name b))"

definition slice :: "'a list \<Rightarrow> nat \<Rightarrow> nat \<Rightarrow> 'a list" where
  "slice data a b = take (b - a) (drop a data)"

text \<open>
  One pass through the body of the \<^verbatim>\<open>while\<close> loop of \<^verbatim>\<open>run_walk_forward\<close>:
  optimize on the in-sample slice, test the best parameters on the out-of-sample slice,
  store the window. Printing the best parameters fails on \<^verbatim>\<open>None\<close>.
\<close>

definition walk_forward_window ::
  "('t, 's) strategy_class \<Rightarrow> 't bar list \<Rightarrow> (string \<times> real list) list \<Rightarrow> nat \<Rightarrow> nat
    \<Rightarrow> ('t, 's, 'z) forward_test_engine_scheme
    \<Rightarrow> error + ('t, 's, 'z) forward_test_engine_scheme" where
  "walk_forward_window cls data param_grid window_start window_num self =
     (let is_first = window_start;
          is_last = window_start + in_sample_bars self;
          oos_first = is_last;
          oos_last = oos_first + out_sample_bars self;
          is_data = slice data is_first is_last;
          oos_data = slice data oos_first oos_last
      in case index_at is_data 0 of Inl e \<Rightarrow> Inl e | Inr t1 \<Rightarrow>
         (case index_at is_data (- 1) of Inl e \<Rightarrow> Inl e | Inr t2 \<Rightarrow>
         (case index_at oos_data 0 of Inl e \<Rightarrow> Inl e | Inr t3 \<Rightarrow>
         (case index_at oos_data (- 1) of Inl e \<Rightarrow> Inl e | Inr t4 \<Rightarrow>
         (case optimize_parameters cls is_data param_grid self of
            Inl e \<Rightarrow> Inl e
          | Inr ((best, score), self1) \<Rightarrow>
              (case best of
                 None \<Rightarrow> Inl AttributeError
               | Some params \<Rightarrow>
                   (case run_single_backtest cls oos_data params self1 of
                      Inl e \<Rightarrow> Inl e
                    | Inr (r, self2) \<Rightarrow>
                        Inr (self2\<lparr>all_windows := all_windows self2 @
                               [\<lparr>window = window_num, is_start = t1, is_end = t2,
                                 oos_start = t3, oos_end = t4, best_params = params,
                                 is_score = score, oos_results = r\<rparr>],
                             oos_trades := oos_trades self2 @ result_trades r\<rparr>))))))))"

text \<open>
  The \<^verbatim>\<open>while\<close> loop of \<^verbatim>\<open>run_walk_forward\<close>. With a step of zero bars it
  never ends, so the result is an option and \<open>None\<close> stands for a loop that does not
  return.
\<close>

partial_function (option) walk_forward_loop ::
  "('t, 's) strategy_class \<Rightarrow> 't bar list \<Rightarrow> (string \<times> real list) list \<Rightarrow> nat \<Rightarrow> nat
    \<Rightarrow> ('t, 's, 'z) forward_test_engine_scheme
    \<Rightarrow> (error + ('t, 's, 'z) forward_test_engine_scheme) option" where
  "walk_forward_loop cls data param_grid window_start window_num self =
     (if window_start + in_sample_bars self + out_sample_bars self \<le> length data
      then (case walk_forward_window cls data param_grid window_start window_num self of
              Inl e \<Rightarrow> Some (Inl e)
            | Inr self' \<Rightarrow>
                walk_forward_loop cls data param_grid (window_start + step_size self')
                  (window_num + 1) self')
      else Some (Inr self))"

declare walk_forward_loop.simps [code]

text \<open>
  \<^verbatim>\<open>ForwardTestEngine.run_walk_forward\<close> on the bar table \<open>data\<close> that the data
  pipeline has loaded, up to the end of the loop; the summary and the files written after
  it change nothing in the engine.
\<close>

definition default_param_grid :: "(string \<times> real list) list" where
  "default_param_grid =
     [(''risk_per_trade'', [0.015, 0.02, 0.025]),
      (''atr_stop_multiplier'', [2.0, 2.5, 3.0]),
      (''reward_risk_ratio'', [3.0, 4.0, 5.0])]"

definition run_walk_forward ::
  "('t, 's) strategy_class \<Rightarrow> 't bar list \<Rightarrow> (string \<times> real list) list option
    \<Rightarrow> ('t, 's, 'z) forward_test_engine_scheme
    \<Rightarrow> (error + ('t, 's, 'z) forward_test_engine_scheme) option" where
  "run_walk_forward cls data param_grid self =
     (case index_at data 0 of Inl e \<Rightarrow> Some (Inl e) | Inr t1 \<Rightarrow>
     (case index_at data (- 1) of Inl e \<Rightarrow> Some (Inl e) | Inr t2 \<Rightarrow>
        walk_forward_loop cls data
          (case param_grid of None \<Rightarrow> default_param_grid | Some grid \<Rightarrow> grid) 0 1 self))"

section \<open>A strategy and bars for the examples\<close>

text \<open>
  The examples below plug in a strategy with a cut-down rule set of
  \<^verbatim>\<open>strategy.py\<close>: the trend filter (close above the 50-bar average) as entry rule,
  the stop-loss and take-profit exits, and the position sizing. Its tunable attributes
  are the three of the default parameter grid, with the defaults of \<^verbatim>\<open>strategy.py\<close>.
\<close>

record trend_attrs =
  risk_per_trade :: real
  stop_multiplier :: real
  target_ratio :: real

definition trend_strategy :: "(int, trend_attrs) strategy_class" where
  "trend_strategy =
     \<lparr>symbol = (\<lambda>strat. ''EURUSD''),
      atr_stop_multiplier = stop_multiplier,
      reward_risk_ratio = target_ratio,
      should_enter = (\<lambda>strat data idx.
        case iloc data idx of
          Inl e \<Rightarrow> Inl e
        | Inr current \<Rightarrow> Inr (close current > sma_50 current, strat)),
      should_exit = (\<lambda>strat data idx pos.
        case iloc data idx of
          Inl e \<Rightarrow> Inl e
        | Inr current \<Rightarrow>
            Inr (if low current \<le> stop_loss pos then (True, Some ''stop_loss'')
                 else if high current \<ge> take_profit pos then (True, Some ''take_profit'')
                 else (False, None), strat)),
      calculate_position_size = (\<lambda>strat data idx account.
        case Strategy_calculate_position_size ''EURUSD'' (risk_per_trade strat)
               (stop_multiplier strat) data idx account of
          Inl e \<Rightarrow> Inl e
        | Inr n \<Rightarrow> Inr (n, strat)),
      hasattr = (\<lambda>strat a.
        a = ''risk_per_trade'' \<or> a = ''atr_stop_multiplier'' \<or> a = ''reward_risk_ratio''),
      setattr = (\<lambda>strat a v.
        if a = ''risk_per_trade'' then strat\<lparr>risk_per_trade := v\<rparr>
        else if a = ''atr_stop_multiplier'' then strat\<lparr>stop_multiplier := v\<rparr>
        else if a = ''reward_risk_ratio'' then strat\<lparr>target_ratio := v\<rparr>
        else strat)\<rparr>"

definition default_attrs :: trend_attrs where
  "default_attrs = \<lparr>risk_per_trade = 0.005, stop_multiplier = 2.5, target_ratio = 1.5\<rparr>"

text \<open>
  A bar with timestamp \<open>t\<close>, close \<open>c\<close>, high \<open>h\<close>, low \<open>l\<close>, 14-bar ATR \<open>a\<close>
  and 50-bar average \<open>s\<close>.
\<close>

definition bar_at :: "int \<Rightarrow> real \<Rightarrow> real \<Rightarrow> real \<Rightarrow> real \<Rightarrow> real \<Rightarrow> int bar" where
  "bar_at t c h l a s =
     \<lparr>name = t, close = c, high = h, low = l, open = c, volume = 0, atr_14 = a, atr_avg = a,
      ema_9 = c, ema_21 = c, sma_20 = s, sma_50 = s, rsi = 50, momentum_10 = 0\<rparr>"

text \<open>
  Two bars: an entry at 100 on the first (ten contracts, stop 95, target 107.5), the
  target reached on the second. Three bars: then an entry at 104 on the third and last.
  Four bars: that position stopped out at 99 on the fourth.
\<close>

definition two_bars :: "int bar list" where
  "two_bars = [bar_at 1 100 100 100 2 99, bar_at 2 106 108 99 2 107]"

definition three_bars :: "int bar list" where
  "three_bars = two_bars @ [bar_at 3 104 104 104 2 103]"

definition four_bars :: "int bar list" where
  "four_bars = three_bars @ [bar_at 4 98 104 98 2 105]"

text \<open>Six bars: the three bars twice, for one walk-forward window of three and three.\<close>

definition six_bars :: "int bar list" where
  "six_bars = three_bars @
     [bar_at 4 100 100 100 2 99, bar_at 5 106 108 99 2 107, bar_at 6 104 104 104 2 103]"

text \<open>
  A new engine with the capital of the source's main programs, the same engine holding
  the position it opens on the first of the bars above, and a new walk-forward engine,
  also with windows short enough for the six bars.
\<close>

definition new_engine :: "(int, trend_attrs) engine" where
  "new_engine = Engine_init default_attrs 100000"

definition long_engine :: "(int, trend_attrs) engine" where
  "long_engine = new_engine\<lparr>current_position := Some
     \<lparr>entry_time = 1, entry_price = 100, position_size = 10, stop_loss = 95,
      take_profit = 107.5, entry_equity = 100000\<rparr>\<rparr>"

definition new_optimizer :: "(int, trend_attrs) forward_test_engine" where
  "new_optimizer = ForwardTestEngine_init default_attrs 100000"

definition short_optimizer :: "(int, trend_attrs) forward_test_engine" where
  "short_optimizer = new_optimizer\<lparr>in_sample_bars := 3, out_sample_bars := 3, step_size := 3\<rparr>"

section \<open>Reading bars\<close>

lemma iloc_nat: "k < length data \<Longrightarrow> iloc data (int k) = Inr (data ! k)"
  by (simp add: iloc_def)

lemma iloc_last: "data \<noteq> [] \<Longrightarrow> iloc data (int (length data) - 1) = Inr (last data)"
  by (cases data rule: rev_cases) (auto simp: iloc_def nth_append)

lemma strict_names:
  "sorted_wrt (<) (map name data) \<Longrightarrow> j < i \<Longrightarrow> i < length data
     \<Longrightarrow> name (data ! j) < name (data ! i)"
  by (auto simp: sorted_wrt_iff_nth_less)

section \<open>Entering and leaving a trade\<close>

lemma enter_trade_effect:
  "enter_trade cls self data idx = Inr self' \<Longrightarrow>
     account_value self' = account_value self \<and> trades self' = trades self
     \<and> equity_curve self' = equity_curve self \<and> initial_capital self' = initial_capital self
     \<and> engine.more self' = engine.more self
     \<and> (\<exists>bar pos. iloc data idx = Inr bar \<and> current_position self' = Some pos
            \<and> entry_time pos = name bar)"
  by (auto simp: enter_trade_def Let_def split: sum.splits prod.splits)

lemma exit_trade_effect:
  "exit_trade cls self data idx reason = Inr self' \<Longrightarrow>
     \<exists>t pos bar. trades self' = trades self @ [t]
       \<and> account_value self' = account_value self + pnl t
       \<and> current_position self = Some pos \<and> iloc data idx = Inr bar
       \<and> trade_entry_time t = entry_time pos \<and> exit_time t = name bar
       \<and> exit_reason t = reason
       \<and> exit_price t =
           (if reason = Some ''stop_loss'' then stop_loss pos
            else if reason = Some ''take_profit'' then take_profit pos
            else close bar)
       \<and> current_position self' = None \<and> equity_curve self' = equity_curve self
       \<and> initial_capital self' = initial_capital self \<and> strategy self' = strategy self
       \<and> engine.more self' = engine.more self"
  by (auto simp: exit_trade_def Let_def split: sum.splits option.splits if_splits)

lemma BacktestEngine_exit_trade_effect:
  "BacktestEngine_exit_trade cls self data idx reason = Inr (t, self') \<Longrightarrow>
     exit_trade cls self data idx reason = Inr self' \<and> trades self' = trades self @ [t]"
  by (auto simp: BacktestEngine_exit_trade_def split: sum.splits dest!: exit_trade_effect)

section \<open>Evaluating the examples\<close>

lemma symbol_specs_EURUSD:
  "symbol_specs ''EURUSD'' = Some \<lparr>tick_size = 0.00001, point_value = 10, spec_name = ''EURUSD''\<rparr>"
  by (simp add: symbol_specs_def)

lemmas example_defs =
  two_bars_def three_bars_def four_bars_def six_bars_def bar_at_def default_attrs_def
  new_engine_def long_engine_def new_optimizer_def short_optimizer_def
  Engine_init_def ForwardTestEngine_init_def trend_strategy_def
  Strategy_calculate_position_size_def symbol_specs_EURUSD iloc_def Let_def

lemma enter_example:
  "enter_trade trend_strategy new_engine two_bars 0 = Inr long_engine"
  by (simp add: enter_trade_def example_defs)

lemma exit_example:
  "exit_trade trend_strategy long_engine two_bars 1 (Some ''take_profit'') =
     Inr (new_engine\<lparr>account_value := 100750, trades :=
       [\<lparr>trade_entry_time = 1, exit_time = 2, trade_entry_price = 100, exit_price = 107.5,
         trade_position_size = 10, pnl = 750, pnl_pct = Some 0.75,
         exit_reason = Some ''take_profit'', equity_after = 100750\<rparr>]\<rparr>)"
  by (simp add: exit_trade_def example_defs)

lemma bar_example:
  "run_backtest_bar trend_strategy two_bars long_engine 1 =
     Inr (new_engine\<lparr>account_value := 100750, trades :=
       [\<lparr>trade_entry_time = 1, exit_time = 2, trade_entry_price = 100, exit_price = 107.5,
         trade_position_size = 10, pnl = 750, pnl_pct = Some 0.75,
         exit_reason = Some ''take_profit'', equity_after = 100750\<rparr>],
       equity_curve := [\<lparr>timestamp = 2, equity = 100000, position_flag = 1\<rparr>]\<rparr>)"
  by (simp add: run_backtest_bar_def exit_trade_def example_defs)

section \<open>The account changes at exits only\<close>

text \<open>
  C10. Opening a position leaves the account value, the trades, the equity curve and the
  initial capital as they are and sets the current position (the strategy object may
  update its own data while sizing). Closing a position appends one trade and adds its
  pnl to the account value. A pass of the bar loop either leaves trades and account
  value alone or appends one trade and adds its pnl.
\<close>

theorem entry_frame:
  "(enter_trade cls self data idx = Inr entered \<longrightarrow>
      account_value entered = account_value self \<and> trades entered = trades self
      \<and> equity_curve entered = equity_curve self
      \<and> initial_capital entered = initial_capital self
      \<and> engine.more entered = engine.more self \<and> current_position entered \<noteq> None)
   \<and> (exit_trade cls held data idx' reason = Inr left \<longrightarrow>
        (\<exists>t. trades left = trades held @ [t]
           \<and> account_value left = account_value held + pnl t))
   \<and> (run_backtest_bar cls data before idx' = Inr after \<longrightarrow>
        trades after = trades before \<and> account_value after = account_value before
        \<or> (\<exists>t. trades after = trades before @ [t]
              \<and> account_value after = account_value before + pnl t))"
  by (auto simp: run_backtest_bar_def Let_def
      split: sum.splits option.splits prod.splits if_splits
      dest!: exit_trade_effect enter_trade_effect)

theorem entry_frame_witness:
  "enter_trade trend_strategy new_engine two_bars 0 = Inr long_engine
   \<and> account_value long_engine = account_value new_engine
   \<and> trades long_engine = trades new_engine
   \<and> equity_curve long_engine = equity_curve new_engine
   \<and> current_position long_engine \<noteq> None
   \<and> exit_trade trend_strategy long_engine two_bars 1 (Some ''take_profit'') =
       Inr (new_engine\<lparr>account_value := 100750, trades :=
         [\<lparr>trade_entry_time = 1, exit_time = 2, trade_entry_price = 100, exit_price = 107.5,
           trade_position_size = 10, pnl = 750, pnl_pct = Some 0.75,
           exit_reason = Some ''take_profit'', equity_after = 100750\<rparr>]\<rparr>)
   \<and> run_backtest_bar trend_strategy two_bars long_engine 1 =
       Inr (new_engine\<lparr>account_value := 100750, trades :=
         [\<lparr>trade_entry_time = 1, exit_time = 2, trade_entry_price = 100, exit_price = 107.5,
           trade_position_size = 10, pnl = 750, pnl_pct = Some 0.75,
           exit_reason = Some ''take_profit'', equity_after = 100750\<rparr>],
         equity_curve := [\<lparr>timestamp = 2, equity = 100000, position_flag = 1\<rparr>]\<rparr>)"
  using entry_frame [where cls = trend_strategy and self = new_engine and data = two_bars
      and idx = 0 and entered = long_engine and held = long_engine and idx' = 1
      and reason = "Some ''take_profit''" and before = long_engine
      and left = "new_engine\<lparr>account_value := 100750, trades :=
         [\<lparr>trade_entry_time = 1, exit_time = 2, trade_entry_price = 100, exit_price = 107.5,
           trade_position_size = 10, pnl = 750, pnl_pct = Some 0.75,
           exit_reason = Some ''take_profit'', equity_after = 100750\<rparr>]\<rparr>"
      and after = "new_engine\<lparr>account_value := 100750, trades :=
         [\<lparr>trade_entry_time = 1, exit_time = 2, trade_entry_price = 100, exit_price = 107.5,
           trade_position_size = 10, pnl = 750, pnl_pct = Some 0.75,
           exit_reason = Some ''take_profit'', equity_after = 100750\<rparr>],
         equity_curve := [\<lparr>timestamp = 2, equity = 100000, position_flag = 1\<rparr>]\<rparr>"]
    enter_example exit_example bar_example
  by (simp add: new_engine_def long_engine_def Engine_init_def)

section \<open>Exit prices\<close>

lemma long_position:
  "current_position long_engine = Some
     \<lparr>entry_time = 1, entry_price = 100, position_size = 10, stop_loss = 95,
      take_profit = 107.5, entry_equity = 100000\<rparr>"
  by (simp add: long_engine_def)

lemma run_backtest_closes:
  assumes loop: "run_backtest_loop cls data [0..<length data] self = Inr mid"
    and held: "current_position mid = Some pos"
    and run: "run_backtest cls data self = Inr fin"
  shows "\<exists>t. trades fin = trades mid @ [t] \<and> exit_reason t = Some ''end_of_data''
           \<and> exit_price t = close (last data) \<and> exit_time t = name (last data)
           \<and> trade_entry_time t = entry_time pos \<and> current_position fin = None"
proof -
  from run loop held
  have ex: "exit_trade cls mid data (int (length data) - 1) (Some ''end_of_data'') = Inr fin"
    by (simp add: run_backtest_def)
  then have "data \<noteq> []" by (auto simp: exit_trade_def iloc_def)
  from exit_trade_effect [OF ex] held iloc_last [OF this] show ?thesis by auto
qed

text \<open>
  C5. A trade is emitted by \<^verbatim>\<open>_exit_trade\<close> alone. Its exit price is the stored
  stop-loss price of the position for the reason \<^verbatim>\<open>'stop_loss'\<close>, the stored
  take-profit price for \<^verbatim>\<open>'take_profit'\<close>, and the close of the current bar for
  every other reason: the exit rule of a strategy returns a flag and a reason and no
  price, so the price of a strategy-specific reason is never specified. The closure at
  the end of the data exits for the reason \<^verbatim>\<open>'end_of_data'\<close> at the close of the
  final bar.
\<close>

theorem exit_price_resolution:
  "(exit_trade cls self data idx reason = Inr left \<longrightarrow>
      (\<exists>pos bar t. current_position self = Some pos \<and> iloc data idx = Inr bar
         \<and> trades left = trades self @ [t] \<and> exit_reason t = reason
         \<and> (reason = Some ''stop_loss'' \<longrightarrow> exit_price t = stop_loss pos)
         \<and> (reason = Some ''take_profit'' \<longrightarrow> exit_price t = take_profit pos)
         \<and> (reason \<noteq> Some ''stop_loss'' \<and> reason \<noteq> Some ''take_profit''
              \<longrightarrow> exit_price t = close bar)))
   \<and> (run_backtest_loop cls bars [0..<length bars] start = Inr mid
        \<and> current_position mid \<noteq> None \<and> run_backtest cls bars start = Inr fin \<longrightarrow>
        (\<exists>t. trades fin = trades mid @ [t] \<and> exit_reason t = Some ''end_of_data''
           \<and> exit_price t = close (last bars)))"
proof (intro conjI impI)
  assume "exit_trade cls self data idx reason = Inr left"
  from exit_trade_effect [OF this]
  show "\<exists>pos bar t. current_position self = Some pos \<and> iloc data idx = Inr bar
         \<and> trades left = trades self @ [t] \<and> exit_reason t = reason
         \<and> (reason = Some ''stop_loss'' \<longrightarrow> exit_price t = stop_loss pos)
         \<and> (reason = Some ''take_profit'' \<longrightarrow> exit_price t = take_profit pos)
         \<and> (reason \<noteq> Some ''stop_loss'' \<and> reason \<noteq> Some ''take_profit''
              \<longrightarrow> exit_price t = close bar)"
    by auto
next
  assume "run_backtest_loop cls bars [0..<length bars] start = Inr mid
        \<and> current_position mid \<noteq> None \<and> run_backtest cls bars start = Inr fin"
  then obtain pos where "run_backtest_loop cls bars [0..<length bars] start = Inr mid"
    "current_position mid = Some pos" "run_backtest cls bars start = Inr fin"
    by auto
  from run_backtest_closes [OF this]
  show "\<exists>t. trades fin = trades mid @ [t] \<and> exit_reason t = Some ''end_of_data''
           \<and> exit_price t = close (last bars)"
    by auto
qed

lemma three_bars_loop:
  "run_backtest_loop trend_strategy three_bars [0..<length three_bars] new_engine =
     Inr \<lparr>strategy = default_attrs, initial_capital = 100000, account_value = 100750,
          trades =
            [\<lparr>trade_entry_time = 1, exit_time = 2, trade_entry_price = 100,
              exit_price = 107.5, trade_position_size = 10, pnl = 750,
              pnl_pct = Some 0.75, exit_reason = Some ''take_profit'',
              equity_after = 100750\<rparr>],
          equity_curve =
            [\<lparr>timestamp = 1, equity = 100000, position_flag = 0\<rparr>,
             \<lparr>timestamp = 2, equity = 100000, position_flag = 1\<rparr>,
             \<lparr>timestamp = 3, equity = 100750, position_flag = 0\<rparr>],
          current_position = Some
            \<lparr>entry_time = 3, entry_price = 104, position_size = 10, stop_loss = 99,
             take_profit = 111.5, entry_equity = 100750\<rparr>\<rparr>"
  by (simp add: run_backtest_bar_def enter_trade_def exit_trade_def example_defs upt_rec)

lemma three_bars_run:
  "run_backtest trend_strategy three_bars new_engine =
     Inr \<lparr>strategy = default_attrs, initial_capital = 100000, account_value = 100750,
          trades =
            [\<lparr>trade_entry_time = 1, exit_time = 2, trade_entry_price = 100,
              exit_price = 107.5, trade_position_size = 10, pnl = 750,
              pnl_pct = Some 0.75, exit_reason = Some ''take_profit'',
              equity_after = 100750\<rparr>,
             \<lparr>trade_entry_time = 3, exit_time = 3, trade_entry_price = 104,
              exit_price = 104, trade_position_size = 10, pnl = 0,
              pnl_pct = Some 0, exit_reason = Some ''end_of_data'',
              equity_after = 100750\<rparr>],
          equity_curve =
            [\<lparr>timestamp = 1, equity = 100000, position_flag = 0\<rparr>,
             \<lparr>timestamp = 2, equity = 100000, position_flag = 1\<rparr>,
             \<lparr>timestamp = 3, equity = 100750, position_flag = 0\<rparr>],
          current_position = None\<rparr>"
  by (simp add: run_backtest_def three_bars_loop)
    (simp add: exit_trade_def example_defs)

theorem exit_price_resolution_witness:
  "exit_trade trend_strategy long_engine two_bars 1 (Some ''take_profit'') =
     Inr (new_engine\<lparr>account_value := 100750, trades :=
       [\<lparr>trade_entry_time = 1, exit_time = 2, trade_entry_price = 100, exit_price = 107.5,
         trade_position_size = 10, pnl = 750, pnl_pct = Some 0.75,
         exit_reason = Some ''take_profit'', equity_after = 100750\<rparr>]\<rparr>)
   \<and> take_profit (the (current_position long_engine)) = 107.5
   \<and> current_position
        (projr (run_backtest_loop trend_strategy three_bars [0..<length three_bars] new_engine))
        \<noteq> None
   \<and> exit_price (last (trades (projr (run_backtest trend_strategy three_bars new_engine))))
        = close (last three_bars)"
  using exit_price_resolution [where cls = trend_strategy and self = long_engine
      and data = two_bars and idx = 1 and reason = "Some ''take_profit''"
      and bars = three_bars and start = new_engine
      and left = "projr (exit_trade trend_strategy long_engine two_bars 1
                    (Some ''take_profit''))"
      and mid = "projr (run_backtest_loop trend_strategy three_bars [0..<length three_bars]
                    new_engine)"
      and fin = "projr (run_backtest trend_strategy three_bars new_engine)"]
  by (simp add: exit_example three_bars_loop three_bars_run long_position)

section \<open>One position at a time\<close>

text \<open>
  C3. The engine holds its position in the one attribute \<^verbatim>\<open>current_position\<close>, so
  there is never more than one. While a position is open, a pass of the bar loop, in
  \<^verbatim>\<open>Engine.run_backtest\<close> and in \<^verbatim>\<open>_run_single_backtest\<close> alike, does not
  consult the entry rule nor the sizing rule of the strategy: it comes out the same
  whatever these two are, and it leaves the engine with that same position or with none.
\<close>

theorem single_open_position:
  "current_position self = Some pos \<Longrightarrow>
     run_backtest_bar (cls\<lparr>should_enter := enter, calculate_position_size := sizing\<rparr>)
         data self idx = run_backtest_bar cls data self idx
     \<and> run_single_backtest_bar (cls\<lparr>should_enter := enter, calculate_position_size := sizing\<rparr>)
         data (acc, self) idx = run_single_backtest_bar cls data (acc, self) idx
     \<and> (run_backtest_bar cls data self idx = Inr after \<longrightarrow>
          current_position after = Some pos \<or> current_position after = None)
     \<and> (run_single_backtest_bar cls data (acc, self) idx = Inr (acc', after') \<longrightarrow>
          current_position after' = Some pos \<or> current_position after' = None)"
  by (auto simp: run_backtest_bar_def run_single_backtest_bar_def Let_def exit_trade_def
      BacktestEngine_exit_trade_def
      split: sum.splits option.splits prod.splits if_splits)

lemma bar_hold_example:
  "run_backtest_bar trend_strategy two_bars long_engine 0 =
     Inr (long_engine\<lparr>equity_curve := [\<lparr>timestamp = 1, equity = 100000, position_flag = 1\<rparr>]\<rparr>)"
  by (simp add: run_backtest_bar_def exit_trade_def example_defs)

lemma single_bar_hold_example:
  "run_single_backtest_bar trend_strategy two_bars ([], long_engine) 0 = Inr ([], long_engine)"
  by (simp add: run_single_backtest_bar_def example_defs)

theorem single_open_position_witness:
  "current_position long_engine = Some
     \<lparr>entry_time = 1, entry_price = 100, position_size = 10, stop_loss = 95,
      take_profit = 107.5, entry_equity = 100000\<rparr>
   \<and> run_backtest_bar
        (trend_strategy\<lparr>should_enter := (\<lambda>strat data idx. Inl ValueError),
           calculate_position_size := (\<lambda>strat data idx account. Inl ValueError)\<rparr>)
        two_bars long_engine 0
       = Inr (long_engine\<lparr>equity_curve :=
           [\<lparr>timestamp = 1, equity = 100000, position_flag = 1\<rparr>]\<rparr>)
   \<and> run_single_backtest_bar
        (trend_strategy\<lparr>should_enter := (\<lambda>strat data idx. Inl ValueError),
           calculate_position_size := (\<lambda>strat data idx account. Inl ValueError)\<rparr>)
        two_bars ([], long_engine) 0
       = Inr ([], long_engine)
   \<and> current_position (long_engine\<lparr>equity_curve :=
           [\<lparr>timestamp = 1, equity = 100000, position_flag = 1\<rparr>]\<rparr>)
       = current_position long_engine"
  using single_open_position [OF long_position, where cls = trend_strategy
      and enter = "\<lambda>strat data idx. Inl ValueError"
      and sizing = "\<lambda>strat data idx account. Inl ValueError"
      and data = two_bars and idx = 0 and acc = "[]"
      and after = "long_engine\<lparr>equity_curve :=
           [\<lparr>timestamp = 1, equity = 100000, position_flag = 1\<rparr>]\<rparr>"
      and acc' = "[]" and after' = long_engine]
  by (simp add: bar_hold_example single_bar_hold_example long_position)

section \<open>An empty bar table\<close>



section \<open>Invariants of the bar loop\<close>

text \<open>
  A property that holds before the bar of index \<open>k\<close> and that every pass of the loop
  carries from one index to the next holds after the last bar.
\<close>

lemma run_backtest_loop_upt:
  assumes step: "\<And>i s s'. k \<le> i \<Longrightarrow> i < n \<Longrightarrow> P i s
                   \<Longrightarrow> run_backtest_bar cls data s (int i) = Inr s' \<Longrightarrow> P (Suc i) s'"
  shows "k \<le> n \<Longrightarrow> P k self \<Longrightarrow> run_backtest_loop cls data [k..<n] self = Inr self'
           \<Longrightarrow> P n self'"
  using step
proof (induction "n - k" arbitrary: k self)
  case 0
  then show ?case by simp
next
  case (Suc d)
  then have less: "k < n" by simp
  then have unfold: "[k..<n] = k # [Suc k..<n]" by (simp add: upt_conv_Cons)
  from Suc.prems(3) obtain mid
    where first: "run_backtest_bar cls data self (int k) = Inr mid"
      and rest: "run_backtest_loop cls data [Suc k..<n] mid = Inr self'"
    by (auto simp: unfold split: sum.splits)
  have "P (Suc k) mid" using Suc.prems(4) [OF _ less Suc.prems(2) first] by simp
  moreover have "d = n - Suc k" using Suc.hyps(2) by simp
  moreover have "Suc k \<le> n" using less by simp
  ultimately show ?case
    using Suc.hyps(1) [of "Suc k" mid] rest Suc.prems(4) by simp
qed

section \<open>Entry and exit times\<close>

text \<open>
  Before the bar of index \<open>i\<close>, every trade has left strictly after it entered, and an
  open position has entered on an earlier bar.
\<close>

lemma run_backtest_bar_times:
  fixes data :: "('t::order) bar list"
  assumes sorted: "sorted_wrt (<) (map name data)" and i: "i < length data"
    and trades_ok: "\<forall>t \<in> set (trades s). trade_entry_time t < exit_time t"
    and pos_ok: "\<forall>pos. current_position s = Some pos
                   \<longrightarrow> (\<exists>j<i. entry_time pos = name (data ! j))"
    and step: "run_backtest_bar cls data s (int i) = Inr s'"
  shows "(\<forall>t \<in> set (trades s'). trade_entry_time t < exit_time t)
         \<and> (\<forall>pos. current_position s' = Some pos
                \<longrightarrow> (\<exists>j<Suc i. entry_time pos = name (data ! j)))"
proof (cases "current_position s")
  case None
  with step trades_ok i show ?thesis
    by (auto simp: run_backtest_bar_def iloc_nat Let_def
        split: sum.splits prod.splits if_splits dest!: enter_trade_effect)
next
  case (Some pos)
  with pos_ok obtain j where j: "j < i" "entry_time pos = name (data ! j)"
    by auto
  have lt: "name (data ! j) < name (data ! i)" by (rule strict_names [OF sorted j(1) i])
  from step Some trades_ok i j lt show ?thesis
    by (auto simp: run_backtest_bar_def iloc_nat Let_def less_Suc_eq
        split: sum.splits prod.splits if_splits dest!: exit_trade_effect)
qed

lemma run_backtest_loop_times:
  fixes data :: "('t::order) bar list"
  assumes sorted: "sorted_wrt (<) (map name data)"
    and loop: "run_backtest_loop cls data [0..<length data] (Engine_init strat capital)
                 = Inr mid"
  shows "(\<forall>t \<in> set (trades mid). trade_entry_time t < exit_time t)
         \<and> (\<forall>pos. current_position mid = Some pos
                \<longrightarrow> (\<exists>j<length data. entry_time pos = name (data ! j)))"
proof -
  let ?P = "\<lambda>i s. (\<forall>t \<in> set (trades s). trade_entry_time t < exit_time t)
         \<and> (\<forall>pos. current_position s = Some pos
                \<longrightarrow> (\<exists>j<i. entry_time pos = name (data ! j)))"
  have start: "?P 0 (Engine_init strat capital)"
    by (simp add: Engine_init_def)
  have "?P (length data) mid"
  proof (rule run_backtest_loop_upt [where P = ?P and k = 0, OF _ _ start loop])
    fix i s s'
    assume "i < length data" "?P i s" "run_backtest_bar cls data s (int i) = Inr s'"
    then show "?P (Suc i) s'"
      using run_backtest_bar_times [OF sorted, of i s cls s'] by blast
  qed simp
  then show ?thesis .
qed

text \<open>
  C9, as amended. In a run of \<^verbatim>\<open>Engine.run_backtest\<close> on a new engine over bars with
  strictly increasing timestamps, no trade leaves before it entered: every trade leaves
  strictly later than it entered, except the trade of the closure at the end of the data
  when its position was entered on the final bar, which leaves at its entry time.
\<close>

theorem trade_time_order:
  fixes data :: "('t::order) bar list"
  assumes sorted: "sorted_wrt (<) (map name data)"
    and run: "run_backtest cls data (Engine_init strat capital) = Inr fin"
  shows "\<forall>t \<in> set (trades fin).
           trade_entry_time t < exit_time t
           \<or> (t = last (trades fin) \<and> trade_entry_time t = exit_time t
               \<and> exit_time t = name (last data) \<and> exit_reason t = Some ''end_of_data'')"
proof -
  from run obtain mid
    where loop: "run_backtest_loop cls data [0..<length data] (Engine_init strat capital) = Inr mid"
    by (auto simp: run_backtest_def split: sum.splits)
  from run_backtest_loop_times [OF sorted loop]
  have trades_ok: "\<forall>t \<in> set (trades mid). trade_entry_time t < exit_time t"
    and pos_ok: "\<forall>pos. current_position mid = Some pos
                   \<longrightarrow> (\<exists>j<length data. entry_time pos = name (data ! j))"
    by blast+
  show ?thesis
  proof (cases "current_position mid")
    case None
    with run loop have "fin = mid" by (simp add: run_backtest_def)
    with trades_ok show ?thesis by simp
  next
    case (Some pos)
    with pos_ok obtain j where j: "j < length data" "entry_time pos = name (data ! j)"
      by auto
    then have ne: "data \<noteq> []" by auto
    from run_backtest_closes [OF loop Some run] obtain t
      where t: "trades fin = trades mid @ [t]" "trade_entry_time t = entry_time pos"
        "exit_time t = name (last data)" "exit_reason t = Some ''end_of_data''"
      by auto
    have "name (data ! j) \<le> name (last data)"
    proof (cases "j = length data - 1")
      case True
      with ne show ?thesis by (simp add: last_conv_nth)
    next
      case False
      with j(1) have "j < length data - 1" by simp
      moreover have "length data - 1 < length data" using ne by simp
      ultimately have "name (data ! j) < name (data ! (length data - 1))"
        by (rule strict_names [OF sorted])
      with ne show ?thesis by (simp add: last_conv_nth)
    qed
    with t j(2) have "trade_entry_time t < exit_time t \<or> trade_entry_time t = exit_time t"
      by (auto simp: order_le_less)
    with t trades_ok show ?thesis by auto
  qed
qed

lemma three_bars_sorted: "sorted_wrt (<) (map name three_bars)"
  by (simp add: three_bars_def two_bars_def bar_at_def)

theorem trade_time_order_witness:
  "sorted_wrt (<) (map name three_bars)
   \<and> map trade_entry_time
       (trades (projr (run_backtest trend_strategy three_bars new_engine))) = [1, 3]
   \<and> map exit_time
       (trades (projr (run_backtest trend_strategy three_bars new_engine))) = [2, 3]
   \<and> name (last three_bars) = 3"
  using trade_time_order [OF three_bars_sorted, where cls = trend_strategy
      and strat = default_attrs and capital = 100000
      and fin = "projr (run_backtest trend_strategy three_bars new_engine)"]
    three_bars_sorted
  by (simp add: three_bars_run) (simp add: three_bars_def bar_at_def)

text \<open>
  The claim as it was stated fails: the position entered on the third and last bar is
  closed on that bar, so its trade leaves at its entry time.
\<close>

theorem trade_time_order_counterexample:
  "sorted_wrt (<) (map name three_bars)
   \<and> trade_entry_time (last (trades (projr (run_backtest trend_strategy three_bars new_engine))))
       = exit_time (last (trades (projr (run_backtest trend_strategy three_bars new_engine))))"
  using three_bars_sorted by (simp add: three_bars_run)

section \<open>The account and the trades of a run\<close>

lemma run_backtest_bar_ledger:
  assumes "run_backtest_bar cls data self idx = Inr self'"
  shows "account_value self' - sum_list (map pnl (trades self'))
           = account_value self - sum_list (map pnl (trades self))"
  using assms
  by (auto simp: run_backtest_bar_def Let_def split: sum.splits option.splits prod.splits if_splits
      dest!: exit_trade_effect enter_trade_effect)

lemma run_backtest_loop_ledger:
  "run_backtest_loop cls data idxs self = Inr self' \<Longrightarrow>
     account_value self' - sum_list (map pnl (trades self'))
       = account_value self - sum_list (map pnl (trades self))"
proof (induction idxs arbitrary: self)
  case Nil
  then show ?case by simp
next
  case (Cons idx idxs)
  then obtain mid where step: "run_backtest_bar cls data self (int idx) = Inr mid"
    and rest: "run_backtest_loop cls data idxs mid = Inr self'"
    by (auto split: sum.splits)
  from Cons.IH [OF rest] run_backtest_bar_ledger [OF step] show ?case by simp
qed

lemma run_backtest_ledger:
  "run_backtest cls data self = Inr self' \<Longrightarrow>
     account_value self' - sum_list (map pnl (trades self'))
       = account_value self - sum_list (map pnl (trades self))"
  by (auto simp: run_backtest_def split: sum.splits option.splits
      dest!: run_backtest_loop_ledger exit_trade_effect)

text \<open>
  Equity conservation of \<^verbatim>\<open>Engine.run_backtest\<close>: a run on a new engine ends with the
  initial capital plus the pnl of its trades, and with no position.
\<close>

lemma run_backtest_conservation:
  "run_backtest cls data (Engine_init strat capital) = Inr fin \<Longrightarrow>
     account_value fin = capital + sum_list (map pnl (trades fin))"
  by (drule run_backtest_ledger) (simp add: Engine_init_def)

lemma run_backtest_flat:
  "run_backtest cls data self = Inr fin \<Longrightarrow> current_position fin = None"
  by (auto simp: run_backtest_def split: sum.splits option.splits dest!: exit_trade_effect)

lemma run_single_backtest_bar_ledger:
  assumes "run_single_backtest_bar cls data (acc, self) idx = Inr (acc', self')"
  shows "account_value self' - sum_list (map pnl acc')
           = account_value self - sum_list (map pnl acc)"
  using assms
  by (auto simp: run_single_backtest_bar_def BacktestEngine_enter_trade_def
      split: sum.splits option.splits prod.splits if_splits
      dest!: BacktestEngine_exit_trade_effect exit_trade_effect enter_trade_effect)

lemma run_single_backtest_loop_ledger:
  "run_single_backtest_loop cls data idxs (acc, self) = Inr (acc', self') \<Longrightarrow>
     account_value self' - sum_list (map pnl acc') = account_value self - sum_list (map pnl acc)"
proof (induction idxs arbitrary: acc self)
  case Nil
  then show ?case by simp
next
  case (Cons idx idxs)
  then obtain acc1 self1
    where step: "run_single_backtest_bar cls data (acc, self) (int idx) = Inr (acc1, self1)"
      and rest: "run_single_backtest_loop cls data idxs (acc1, self1) = Inr (acc', self')"
    by (auto split: sum.splits)
  from Cons.IH [OF rest] run_single_backtest_bar_ledger [OF step] show ?case by simp
qed

text \<open>
  A run of \<^verbatim>\<open>_run_single_backtest\<close> ends with the account value the engine had when
  the run began plus the pnl of the trades of the run.
\<close>

lemma run_single_backtest_ledger:
  assumes "run_single_backtest cls data params self = Inr (r, self')"
  shows "final_capital r = account_value self + sum_list (map pnl (result_trades r))"
  using assms
  by (auto simp: run_single_backtest_def split: sum.splits prod.splits
      dest!: run_single_backtest_loop_ledger)

section \<open>Runs of the walk-forward engine on the examples\<close>

lemmas single_defs =
  run_single_backtest_def run_single_backtest_bar_def BacktestEngine_enter_trade_def
  BacktestEngine_exit_trade_def enter_trade_def exit_trade_def calculate_metrics_def
  truediv_def mean_def upt_rec

lemma two_bars_first_run:
  "run_single_backtest trend_strategy two_bars [] new_optimizer =
     Inr (\<lparr>total_trades = 1, win_rate = 100, total_pnl = 750, profit_factor = 0,
           final_capital = 100750,
           result_trades =
             [\<lparr>trade_entry_time = 1, exit_time = 2, trade_entry_price = 100,
               exit_price = 107.5, trade_position_size = 10, pnl = 750,
               pnl_pct = Some 0.75, exit_reason = Some ''take_profit'',
               equity_after = 100750\<rparr>]\<rparr>,
          new_optimizer\<lparr>account_value := 100750,
            trades :=
              [\<lparr>trade_entry_time = 1, exit_time = 2, trade_entry_price = 100,
                exit_price = 107.5, trade_position_size = 10, pnl = 750,
                pnl_pct = Some 0.75, exit_reason = Some ''take_profit'',
                equity_after = 100750\<rparr>]\<rparr>)"
  by (simp add: single_defs example_defs)

lemma two_bars_second_run:
  "run_single_backtest trend_strategy two_bars []
     (snd (projr (run_single_backtest trend_strategy two_bars [] new_optimizer))) =
     Inr (\<lparr>total_trades = 1, win_rate = 100, total_pnl = 750, profit_factor = 0,
           final_capital = 101500,
           result_trades =
             [\<lparr>trade_entry_time = 1, exit_time = 2, trade_entry_price = 100,
               exit_price = 107.5, trade_position_size = 10, pnl = 750,
               pnl_pct = Some (300 / 403), exit_reason = Some ''take_profit'',
               equity_after = 101500\<rparr>]\<rparr>,
          new_optimizer\<lparr>account_value := 101500,
            trades :=
              [\<lparr>trade_entry_time = 1, exit_time = 2, trade_entry_price = 100,
                exit_price = 107.5, trade_position_size = 10, pnl = 750,
                pnl_pct = Some 0.75, exit_reason = Some ''take_profit'',
                equity_after = 100750\<rparr>,
               \<lparr>trade_entry_time = 1, exit_time = 2, trade_entry_price = 100,
                exit_price = 107.5, trade_position_size = 10, pnl = 750,
                pnl_pct = Some (300 / 403), exit_reason = Some ''take_profit'',
                equity_after = 101500\<rparr>]\<rparr>)"
  by (simp add: two_bars_first_run) (simp add: single_defs example_defs)

lemma three_bars_first_run:
  "run_single_backtest trend_strategy three_bars [] new_optimizer =
     Inr (\<lparr>total_trades = 1, win_rate = 100, total_pnl = 750, profit_factor = 0,
           final_capital = 100750,
           result_trades =
             [\<lparr>trade_entry_time = 1, exit_time = 2, trade_entry_price = 100,
               exit_price = 107.5, trade_position_size = 10, pnl = 750,
               pnl_pct = Some 0.75, exit_reason = Some ''take_profit'',
               equity_after = 100750\<rparr>]\<rparr>,
          new_optimizer\<lparr>account_value := 100750,
            trades :=
              [\<lparr>trade_entry_time = 1, exit_time = 2, trade_entry_price = 100,
                exit_price = 107.5, trade_position_size = 10, pnl = 750,
                pnl_pct = Some 0.75, exit_reason = Some ''take_profit'',
                equity_after = 100750\<rparr>],
            current_position := Some
              \<lparr>entry_time = 3, entry_price = 104, position_size = 10, stop_loss = 99,
               take_profit = 111.5, entry_equity = 100750\<rparr>\<rparr>)"
  by (simp add: single_defs example_defs)

section \<open>The metrics of a run\<close>

lemma calculate_metrics_returns:
  "\<exists>pnl_sum rate pf. calculate_metrics ts = Inr (pnl_sum, rate, pf)"
  by (cases "ts = []") (auto simp: calculate_metrics_def truediv_def mean_def Let_def filter_map)

lemma calculate_metrics_profit_factor:
  assumes "calculate_metrics ts = Inr (pnl_sum, rate, pf)"
  shows "pf =
     (let winners = filter (\<lambda>p. p > 0) (map pnl ts);
          losers = filter (\<lambda>p. p \<le> 0) (map pnl ts);
          mean_win = (if winners = [] then 0 else sum_list winners / real (length winners));
          mean_loss = sum_list losers / real (length losers)
      in if losers \<noteq> [] \<and> mean_loss \<noteq> 0
         then \<bar>mean_win * real (length winners) / (mean_loss * real (length losers))\<bar>
         else 0)"
proof (cases "ts = []")
  case True
  with assms show ?thesis by (simp add: calculate_metrics_def)
next
  case False
  with assms show ?thesis
    by (auto simp: calculate_metrics_def truediv_def mean_def Let_def filter_map
        split: if_splits sum.splits)
qed

text \<open>
  C8. The metrics of \<^verbatim>\<open>_run_single_backtest\<close> never raise, whatever the trades. The
  profit factor of the results is the absolute value of mean winning pnl times number of
  winners over mean losing pnl times number of losers (a mean of no winners counting as
  0, as in the source) when there is a loser and the mean loss is not zero; it is the
  sentinel 0 when there is no loser, and also when the mean loss is zero.
\<close>

theorem profit_factor_sentinel:
  "calculate_metrics ts \<noteq> Inl e
   \<and> (run_single_backtest cls data params self = Inr (r, self') \<longrightarrow>
        (let winners = filter (\<lambda>p. p > 0) (map pnl (result_trades r));
             losers = filter (\<lambda>p. p \<le> 0) (map pnl (result_trades r));
             mean_win = (if winners = [] then 0 else sum_list winners / real (length winners));
             mean_loss = sum_list losers / real (length losers)
         in (losers \<noteq> [] \<and> mean_loss \<noteq> 0 \<longrightarrow>
               profit_factor r
                 = \<bar>mean_win * real (length winners) / (mean_loss * real (length losers))\<bar>)
            \<and> (losers = [] \<longrightarrow> profit_factor r = 0)
            \<and> (mean_loss = 0 \<longrightarrow> profit_factor r = 0)))"
proof (intro conjI impI)
  show "calculate_metrics ts \<noteq> Inl e"
    using calculate_metrics_returns [of ts] by auto
next
  assume "run_single_backtest cls data params self = Inr (r, self')"
  then have "calculate_metrics (result_trades r)
               = Inr (total_pnl r, win_rate r, profit_factor r)"
    by (auto simp: run_single_backtest_def split: sum.splits prod.splits)
  from calculate_metrics_profit_factor [OF this]
  show "let winners = filter (\<lambda>p. p > 0) (map pnl (result_trades r));
             losers = filter (\<lambda>p. p \<le> 0) (map pnl (result_trades r));
             mean_win = (if winners = [] then 0 else sum_list winners / real (length winners));
             mean_loss = sum_list losers / real (length losers)
         in (losers \<noteq> [] \<and> mean_loss \<noteq> 0 \<longrightarrow>
               profit_factor r
                 = \<bar>mean_win * real (length winners) / (mean_loss * real (length losers))\<bar>)
            \<and> (losers = [] \<longrightarrow> profit_factor r = 0)
            \<and> (mean_loss = 0 \<longrightarrow> profit_factor r = 0)"
    by (auto simp: Let_def filter_map split: if_splits)
qed

lemma four_bars_run:
  "run_single_backtest trend_strategy four_bars [] new_optimizer =
     Inr (\<lparr>total_trades = 2, win_rate = 50, total_pnl = 250, profit_factor = 1.5,
           final_capital = 100250,
           result_trades =
             [\<lparr>trade_entry_time = 1, exit_time = 2, trade_entry_price = 100,
               exit_price = 107.5, trade_position_size = 10, pnl = 750,
               pnl_pct = Some 0.75, exit_reason = Some ''take_profit'',
               equity_after = 100750\<rparr>,
              \<lparr>trade_entry_time = 3, exit_time = 4, trade_entry_price = 104,
               exit_price = 99, trade_position_size = 10, pnl = - 500,
               pnl_pct = Some (- (200 / 403)), exit_reason = Some ''stop_loss'',
               equity_after = 100250\<rparr>]\<rparr>,
          new_optimizer\<lparr>account_value := 100250,
            trades :=
              [\<lparr>trade_entry_time = 1, exit_time = 2, trade_entry_price = 100,
                exit_price = 107.5, trade_position_size = 10, pnl = 750,
                pnl_pct = Some 0.75, exit_reason = Some ''take_profit'',
                equity_after = 100750\<rparr>,
               \<lparr>trade_entry_time = 3, exit_time = 4, trade_entry_price = 104,
                exit_price = 99, trade_position_size = 10, pnl = - 500,
                pnl_pct = Some (- (200 / 403)), exit_reason = Some ''stop_loss'',
                equity_after = 100250\<rparr>]\<rparr>)"
  by (simp add: single_defs example_defs)

theorem profit_factor_sentinel_witness:
  "map pnl (result_trades (fst (projr (run_single_backtest trend_strategy four_bars []
       new_optimizer)))) = [750, - 500]
   \<and> profit_factor (fst (projr (run_single_backtest trend_strategy four_bars []
       new_optimizer))) = \<bar>750 / 1 * 1 / (- 500 / 1 * 1)\<bar>
   \<and> map pnl (result_trades (fst (projr (run_single_backtest trend_strategy two_bars []
       new_optimizer)))) = [750]
   \<and> profit_factor (fst (projr (run_single_backtest trend_strategy two_bars []
       new_optimizer))) = 0"
  using profit_factor_sentinel [where cls = trend_strategy and data = four_bars
      and params = "[]" and self = new_optimizer
      and r = "fst (projr (run_single_backtest trend_strategy four_bars [] new_optimizer))"
      and self' = "snd (projr (run_single_backtest trend_strategy four_bars [] new_optimizer))"]
    profit_factor_sentinel [where cls = trend_strategy and data = two_bars
      and params = "[]" and self = new_optimizer
      and r = "fst (projr (run_single_backtest trend_strategy two_bars [] new_optimizer))"
      and self' = "snd (projr (run_single_backtest trend_strategy two_bars [] new_optimizer))"]
  by (simp add: four_bars_run two_bars_first_run)

section \<open>State carried from one run of the optimizer to the next\<close>

text \<open>
  C4. \<^verbatim>\<open>Engine.run_backtest\<close> closes a position that is still open after the last bar
  (\<open>run_backtest_closes\<close>) and so never ends with one (\<open>run_backtest_flat\<close>).
  \<^verbatim>\<open>_run_single_backtest\<close> has no such closure: on the three bars, a new walk-forward
  engine ends its run holding the position it entered on the last bar, and the run
  records no trade for it.
\<close>

theorem single_backtest_leaves_position_open:
  "current_position (snd (projr (run_single_backtest trend_strategy three_bars []
       new_optimizer))) =
     Some \<lparr>entry_time = 3, entry_price = 104, position_size = 10, stop_loss = 99,
           take_profit = 111.5, entry_equity = 100750\<rparr>
   \<and> map exit_reason (result_trades (fst (projr (run_single_backtest trend_strategy
       three_bars [] new_optimizer)))) = [Some ''take_profit'']"
  by (simp add: three_bars_first_run)

text \<open>
  C1. \<^verbatim>\<open>Engine.run_backtest\<close> conserves equity (\<open>run_backtest_conservation\<close>), and a
  run of \<^verbatim>\<open>_run_single_backtest\<close> ends with the account value it began with plus the
  pnl of its trades (\<open>run_single_backtest_ledger\<close>). But the account is not set back to
  the initial capital between runs: the second of two runs on the two bars, as the grid
  search makes them, reports a final capital of 101500, while the initial capital plus
  the pnl of the trades of that run is 100750.
\<close>

theorem second_run_breaks_conservation:
  "final_capital (fst (projr (run_single_backtest trend_strategy two_bars []
       (snd (projr (run_single_backtest trend_strategy two_bars [] new_optimizer))))))
     = 101500
   \<and> initial_capital new_optimizer
       + sum_list (map pnl (result_trades (fst (projr (run_single_backtest trend_strategy
           two_bars []
           (snd (projr (run_single_backtest trend_strategy two_bars [] new_optimizer))))))))
     = 100750"
  by (simp add: two_bars_second_run) (simp add: new_optimizer_def ForwardTestEngine_init_def)

section \<open>A failing run in the grid search\<close>

lemma optimize_loop_append:
  "optimize_loop cls data pre best self = Inr (best', self') \<Longrightarrow>
     optimize_loop cls data (pre @ rest) best self = optimize_loop cls data rest best' self'"
proof (induction pre arbitrary: best self)
  case Nil
  then show ?case by simp
next
  case (Cons params pre)
  from Cons.prems obtain r mid
    where run: "run_single_backtest cls data params self = Inr (r, mid)"
    by (auto split: sum.splits)
  show ?case
  proof (cases "case snd best of None \<Rightarrow> True | Some b \<Rightarrow> calculate_fitness_score r > b")
    case True
    with Cons.prems run
    have "optimize_loop cls data pre (Some params, Some (calculate_fitness_score r)) mid
            = Inr (best', self')"
      by (simp add: Let_def)
    from Cons.IH [OF this] True run show ?thesis by (simp add: Let_def)
  next
    case False
    with Cons.prems run have "optimize_loop cls data pre best mid = Inr (best', self')"
      by (simp add: Let_def)
    from Cons.IH [OF this] False run show ?thesis by (simp add: Let_def)
  qed
qed

text \<open>
  C6, as amended. \<^verbatim>\<open>_optimize_parameters\<close> has no handler: when the engine run of
  one parameter combination fails, wherever in the scan, the failure leaves the scan as
  its result; no score is recorded for the combination and the combinations after it
  are not tried.
\<close>

theorem grid_search_failure_propagates:
  "optimize_loop cls data pre best self = Inr (best', self') \<Longrightarrow>
   run_single_backtest cls data params self' = Inl e \<Longrightarrow>
     optimize_loop cls data (pre @ params # rest) best self = Inl e"
  by (simp add: optimize_loop_append)

lemma zero_stop_run:
  "run_single_backtest trend_strategy two_bars [(''atr_stop_multiplier'', 0)] new_optimizer
     = Inl OverflowError"
  by (simp add: single_defs example_defs)

theorem grid_search_failure_propagates_witness:
  "optimize_loop trend_strategy two_bars [] (None, None) new_optimizer
     = Inr ((None, None), new_optimizer)
   \<and> run_single_backtest trend_strategy two_bars [(''atr_stop_multiplier'', 0)] new_optimizer
       = Inl OverflowError
   \<and> optimize_loop trend_strategy two_bars
         ([] @ [(''atr_stop_multiplier'', 0)] # [[(''atr_stop_multiplier'', 2.5)]])
         (None, None) new_optimizer = Inl OverflowError"
  using grid_search_failure_propagates [where cls = trend_strategy and data = two_bars
      and pre = "[]" and best = "(None, None)" and self = new_optimizer
      and best' = "(None, None)" and self' = new_optimizer
      and params = "[(''atr_stop_multiplier'', 0)]" and e = OverflowError
      and rest = "[[(''atr_stop_multiplier'', 2.5)]]"]
  by (simp add: zero_stop_run)

text \<open>
  The claim as it was stated fails: with a stop multiplier of 0 the sizing of the first
  combination divides by zero, and the grid search ends with that error instead of going
  on to the multiplier 2.5.
\<close>

theorem grid_search_counterexample:
  "optimize_parameters trend_strategy two_bars [(''atr_stop_multiplier'', [0, 2.5])]
     new_optimizer = Inl OverflowError"
  by (simp add: optimize_parameters_def generate_param_combinations_def zero_stop_run)

section \<open>A walk-forward run on the six bars\<close>

lemmas optimize_defs =
  optimize_parameters_def generate_param_combinations_def calculate_fitness_score_def

lemma six_bars_walk_forward:
  "run_walk_forward trend_strategy six_bars (Some [(''risk_per_trade'', [0.005, 0.01])])
     short_optimizer =
   Some (Inr (short_optimizer\<lparr>account_value := 99250,
          trades :=
            [\<lparr>trade_entry_time = 1, exit_time = 2, trade_entry_price = 100,
              exit_price = 107.5, trade_position_size = 10, pnl = 750,
              pnl_pct = Some 0.75, exit_reason = Some ''take_profit'',
              equity_after = 100750\<rparr>,
             \<lparr>trade_entry_time = 3, exit_time = 2, trade_entry_price = 104,
              exit_price = 99, trade_position_size = 10, pnl = - 500,
              pnl_pct = Some (- (200 / 403)), exit_reason = Some ''stop_loss'',
              equity_after = 100250\<rparr>,
             \<lparr>trade_entry_time = 3, exit_time = 5, trade_entry_price = 104,
              exit_price = 99, trade_position_size = 20, pnl = - 1000,
              pnl_pct = Some (- (400 / 401)), exit_reason = Some ''stop_loss'',
              equity_after = 99250\<rparr>],
          current_position := Some
            \<lparr>entry_time = 6, entry_price = 104, position_size = 9, stop_loss = 99,
             take_profit = 111.5, entry_equity = 99250\<rparr>,
          all_windows :=
            [\<lparr>window = 1, is_start = 1, is_end = 3, oos_start = 4, oos_end = 6,
              best_params = [(''risk_per_trade'', 0.005)], is_score = Some 500.1,
              oos_results =
                \<lparr>total_trades = 1, win_rate = 0, total_pnl = - 1000, profit_factor = 0,
                 final_capital = 99250,
                 result_trades =
                   [\<lparr>trade_entry_time = 3, exit_time = 5, trade_entry_price = 104,
                     exit_price = 99, trade_position_size = 20, pnl = - 1000,
                     pnl_pct = Some (- (400 / 401)), exit_reason = Some ''stop_loss'',
                     equity_after = 99250\<rparr>]\<rparr>\<rparr>],
          oos_trades :=
            [\<lparr>trade_entry_time = 3, exit_time = 5, trade_entry_price = 104,
              exit_price = 99, trade_position_size = 20, pnl = - 1000,
              pnl_pct = Some (- (400 / 401)), exit_reason = Some ''stop_loss'',
              equity_after = 99250\<rparr>]\<rparr>))"
  unfolding run_walk_forward_def
  by (subst walk_forward_loop.simps, subst walk_forward_loop.simps)
    (simp add: walk_forward_window_def slice_def index_at_def optimize_defs single_defs
      example_defs)

lemma out_of_sample_new_run:
  "run_single_backtest trend_strategy (slice six_bars 3 6) [(''risk_per_trade'', 0.005)]
     new_optimizer =
   Inr (\<lparr>total_trades = 1, win_rate = 100, total_pnl = 750, profit_factor = 0,
         final_capital = 100750,
         result_trades =
           [\<lparr>trade_entry_time = 4, exit_time = 5, trade_entry_price = 100,
             exit_price = 107.5, trade_position_size = 10, pnl = 750,
             pnl_pct = Some 0.75, exit_reason = Some ''take_profit'',
             equity_after = 100750\<rparr>]\<rparr>,
        new_optimizer\<lparr>account_value := 100750,
          trades :=
            [\<lparr>trade_entry_time = 4, exit_time = 5, trade_entry_price = 100,
              exit_price = 107.5, trade_position_size = 10, pnl = 750,
              pnl_pct = Some 0.75, exit_reason = Some ''take_profit'',
              equity_after = 100750\<rparr>],
          current_position := Some
            \<lparr>entry_time = 6, entry_price = 104, position_size = 10, stop_loss = 99,
             take_profit = 111.5, entry_equity = 100750\<rparr>\<rparr>)"
  by (simp add: slice_def single_defs example_defs)

text \<open>
  C2. Neither \<^verbatim>\<open>_run_single_backtest\<close> nor its callers set the account value or the
  position back between runs (and the run closes no position at its end, see C4), so the
  runs of a walk-forward analysis are not independent. On the six bars, with a window of
  three in-sample and three out-of-sample bars and two values of
  \<^verbatim>\<open>risk_per_trade\<close>, the out-of-sample evaluation starts with the account of the two
  in-sample trials and with the position the second trial left open: its one trade was
  entered at time 3, inside the in-sample span, with the 20 contracts of the rejected
  value 0.01, and its final capital is 99250. The same evaluation on a new engine gives
  one trade, entered at time 4 with 10 contracts, and a final capital of 100750.
\<close>

theorem walk_forward_carries_state:
  "map oos_results (all_windows (projr (the (run_walk_forward trend_strategy six_bars
       (Some [(''risk_per_trade'', [0.005, 0.01])]) short_optimizer)))) =
     [\<lparr>total_trades = 1, win_rate = 0, total_pnl = - 1000, profit_factor = 0,
       final_capital = 99250,
       result_trades =
         [\<lparr>trade_entry_time = 3, exit_time = 5, trade_entry_price = 104,
           exit_price = 99, trade_position_size = 20, pnl = - 1000,
           pnl_pct = Some (- (400 / 401)), exit_reason = Some ''stop_loss'',
           equity_after = 99250\<rparr>]\<rparr>]
   \<and> fst (projr (run_single_backtest trend_strategy (slice six_bars 3 6)
       [(''risk_per_trade'', 0.005)] new_optimizer)) =
     \<lparr>total_trades = 1, win_rate = 100, total_pnl = 750, profit_factor = 0,
      final_capital = 100750,
      result_trades =
        [\<lparr>trade_entry_time = 4, exit_time = 5, trade_entry_price = 100,
          exit_price = 107.5, trade_position_size = 10, pnl = 750,
          pnl_pct = Some 0.75, exit_reason = Some ''take_profit'',
          equity_after = 100750\<rparr>]\<rparr>"
  unfolding six_bars_walk_forward out_of_sample_new_run by simp

end
